theory Spec2Isabelle
  imports Main
begin

section \<open>The worker of the test-runner extension (src/worker/worker.ts)\<close>

text \<open>
  The worker process receives one \<open>init\<close> message, constructs one Vitest instance per
  target with a \<open>VSCodeReporter\<close> attached, and then relays the reporter callbacks to the
  host over one RPC channel. The embedding follows the source function by function.
  What the source imports (Node's \<open>process\<close>, \<open>register\<close>, \<open>createVitest\<close>, pathe's
  \<open>dirname\<close>, \<open>parseErrorStacktrace\<close>) is a parameter of the model, collected in the record
  \<open>env\<close>; a call that may throw returns the thrown value.
\<close>

subsection \<open>JavaScript values that cross the process boundary\<close>

datatype jsval = JUndefined | JString string | JArray "jsval list"

text \<open>
  A thrown value (or the reason of a rejected promise), as far as the worker reads it.
  \<open>Thrown s\<close> is a value with properties, \<open>s\<close> its \<open>stack\<close> property, \<open>None\<close> when that
  property is undefined (a thrown value that is no \<open>Error\<close>). \<open>Nullish\<close> is \<open>null\<close> or
  \<open>undefined\<close>, thrown or rejected with: it has no properties.
\<close>

datatype js_error = Thrown "string option" | Nullish

definition TypeError :: js_error where
  "TypeError = Thrown (Some ''TypeError'')"

text \<open>
  The value of a \<open>stack\<close> property. Reading \<open>err.stack\<close>, as lines 146 and 179 do, gives
  that value, and throws a \<open>TypeError\<close> when \<open>err\<close> is \<open>null\<close> or \<open>undefined\<close>.
  \<open>String_of_stack\<close> is \<open>String(err.stack)\<close>.
\<close>

definition stack_value :: "string option \<Rightarrow> jsval" where
  "stack_value s = (case s of None \<Rightarrow> JUndefined | Some t \<Rightarrow> JString t)"

definition err_stack :: "js_error \<Rightarrow> js_error + jsval" where
  "err_stack err = (case err of Thrown s \<Rightarrow> Inr (stack_value s) | Nullish \<Rightarrow> Inl TypeError)"

definition String_of_stack :: "js_error \<Rightarrow> js_error + string" where
  "String_of_stack err =
     (case err of
        Thrown s \<Rightarrow> Inr (case s of None \<Rightarrow> ''undefined'' | Some t \<Rightarrow> t)
      | Nullish \<Rightarrow> Inl TypeError)"

subsection \<open>The engine object, as far as the worker reads and writes it\<close>

text \<open>
  \<open>RegExp.prototype.toString\<close> renders a pattern as \<open>/source/flags\<close>.
\<close>

record RegExp =
  source :: string
  flags :: string

definition RegExp_toString :: "RegExp \<Rightarrow> string" where
  "RegExp_toString re = ''/'' @ source re @ ''/'' @ flags re"

record ResolvedConfig =
  setupFiles :: "string list option"

record WorkspaceProject =
  project_name :: string
  project_config :: nat

text \<open>
  Configuration objects are shared: a project's \<open>config\<close> may be the very object that is
  the root \<open>config\<close>. So a Vitest instance carries a store of its configuration objects
  (\<open>configs\<close>, by address), and \<open>config\<close> and \<open>project_config\<close> are addresses in it.
  \<open>testNamePattern\<close> is \<open>configOverride.testNamePattern\<close>, \<open>None\<close> when undefined.
\<close>

record Vitest =
  configs :: "nat \<Rightarrow> ResolvedConfig"
  config :: nat
  projects :: "WorkspaceProject list"
  testNamePattern :: "RegExp option"

subsection \<open>The reporter\<close>

datatype File = File (filepath: string)

datatype UserConsoleLog = UserConsoleLog (content: string)

record ParsedStack =
  ps_file :: string
  ps_line :: nat
  ps_column :: nat

record ErrorWithDiff =
  err_message :: string
  stacks :: "ParsedStack list option"

text \<open>An entry of \<open>result.errors\<close>: an object, or a value that is no object.\<close>

datatype TaskError = ErrorObject ErrorWithDiff | NotAnObject jsval

record TaskResult =
  result_state :: string
  result_errors :: "TaskError list option"

type_synonym TaskResultPack = "string \<times> TaskResult option"

text \<open>The events of the RPC channel (\<open>BirpcEvents\<close>), each with the arguments of the call.\<close>

datatype rpc_event =
    onConsoleLog "string option" UserConsoleLog
  | onTaskUpdate_event "string option" "TaskResultPack list"
  | onFinished_event "string option" "File list option" "jsval list option" bool
  | onCollected_event "string option" "File list option" bool
  | onWatcherStart_event "string option" "File list option" "jsval list option" bool
  | onWatcherRerun_event "string option" "string list" "string option" bool

text \<open>
  The channel \<open>createWorkerRPC\<close> returns, holding the entries \<open>vitestById\<close> was built from
  (identity and instance, in order).
\<close>

datatype rpc_channel = Channel (vitestById: "(string \<times> Vitest) list")

text \<open>
  The three fields of the class are declared with \<open>!\<close>: they are undefined until
  \<open>initVitest\<close> and \<open>initRpc\<close> assign them. \<open>ctx\<close> is a reference to the engine object; the
  model keeps the engine's current value there, so an assignment the engine makes to its
  own configuration is an update of \<open>ctx\<close>.
\<close>

record VSCodeReporter =
  rpc :: "rpc_channel option"
  ctx :: "Vitest option"
  rid :: "string option"

definition new_VSCodeReporter :: VSCodeReporter where
  "new_VSCodeReporter = \<lparr>rpc = None, ctx = None, rid = None\<rparr>"

subsection \<open>The init message and the process\<close>

record WorkerMeta =
  meta_id :: string
  vitestNodePath :: string
  configFile :: "string option"
  workspaceFile :: "string option"

record WorkerRunnerOptions =
  msg_type :: string
  meta :: "WorkerMeta list"
  loader :: "string option"

text \<open>The options object of the call of \<open>createVitest\<close> (lines 86 to 95).\<close>

record CliOptions =
  opt_config :: "string option"
  opt_workspace :: "string option"
  opt_watch :: bool
  opt_api :: bool
  opt_root :: string
  opt_ui :: bool
  opt_includeTaskLocation :: bool

text \<open>What \<open>initVitest\<close> returns: \<open>{ vitest, reporter, meta }\<close>.\<close>

record vitest_instance =
  i_vitest :: Vitest
  i_reporter :: VSCodeReporter
  i_meta :: WorkerMeta

text \<open>\<open>process.send\<close> is called with \<open>{ type, errors }\<close>.\<close>

datatype process_message = Message (mtype: string) (errors: "jsval list")

text \<open>The calls the worker makes to its collaborators, in the order it makes them.\<close>

datatype call =
    Register string
  | Chdir string
  | CreateVitest string string CliOptions
  | CreateWorkerRPC "(string \<times> Vitest) list"
  | Send process_message

text \<open>
  The state of the process: \<open>cwd\<close> is the module constant of line 127, \<open>process_cwd\<close> what
  \<open>process.cwd()\<close> returns, \<open>init_listener\<close> whether \<open>init\<close> is registered for \<open>message\<close>,
  \<open>vitest\<close> the array of the instances constructed, \<open>channel\<close> the RPC channel once it
  exists, \<open>unhandled\<close> the value the promise of the handler is rejected with, if it is.
\<close>

record process =
  cwd :: string
  process_cwd :: string
  init_listener :: bool
  trace :: "call list"
  vitest :: "vitest_instance list"
  channel :: "rpc_channel option"
  unhandled :: "js_error option"

text \<open>
  The collaborators. \<open>register\<close> and \<open>chdir\<close> return the value they throw, if any;
  \<open>createVitest\<close> stands for the import of \<open>meta.vitestNodePath\<close> followed by its
  \<open>createVitest\<close>, whose result depends on the working directory of the process.
  \<open>rpc_listener\<close> is what the channel does with a message of the host.
\<close>

record env =
  register :: "string \<Rightarrow> js_error option"
  chdir :: "string \<Rightarrow> js_error option"
  dirname :: "string \<Rightarrow> string"
  createVitest :: "string \<Rightarrow> string \<Rightarrow> CliOptions \<Rightarrow> js_error + Vitest"
  setupFilePath :: string
  rpc_listener :: "WorkerRunnerOptions \<Rightarrow> process \<Rightarrow> process"
  getProjectByTaskId :: "Vitest \<Rightarrow> string \<Rightarrow> WorkspaceProject"
  getBrowserSourceMapModuleById :: "WorkspaceProject \<Rightarrow> string \<Rightarrow> string option"
  parseErrorStacktrace :: "ErrorWithDiff \<Rightarrow> (string \<Rightarrow> string option) \<Rightarrow> ParsedStack list"

subsection \<open>\<open>VSCodeReporter.initVitest\<close> (lines 22 to 35)\<close>

definition add_setupFile :: "string \<Rightarrow> ResolvedConfig \<Rightarrow> ResolvedConfig" where
  "add_setupFile path c =
     c\<lparr>setupFiles := Some ((case setupFiles c of None \<Rightarrow> [] | Some fs \<Rightarrow> fs) @ [path])\<rparr>"

definition add_setupFile_at :: "string \<Rightarrow> nat \<Rightarrow> (nat \<Rightarrow> ResolvedConfig) \<Rightarrow> nat \<Rightarrow> ResolvedConfig" where
  "add_setupFile_at path a h = h(a := add_setupFile path (h a))"

text \<open>
  The root configuration first, then the projects in order. The reporter's \<open>ctx\<close> is the
  object that has been written to.
\<close>

definition VSCodeReporter_initVitest ::
  "string \<Rightarrow> Vitest \<Rightarrow> string \<Rightarrow> VSCodeReporter \<Rightarrow> Vitest \<times> VSCodeReporter" where
  "VSCodeReporter_initVitest path v i r =
     (let h1 = add_setupFile_at path (config v) (configs v);
          h2 = fold (\<lambda>project h. add_setupFile_at path (project_config project) h) (projects v) h1;
          v' = v\<lparr>configs := h2\<rparr>
      in (v', r\<lparr>ctx := Some v', rid := Some i\<rparr>))"

definition initRpc :: "rpc_channel \<Rightarrow> VSCodeReporter \<Rightarrow> VSCodeReporter" where
  "initRpc c r = r\<lparr>rpc := Some c\<rparr>"

subsection \<open>\<open>initVitest\<close> (lines 81 to 125)\<close>

text \<open>
  The options that depend on the target are those of \<open>cli_options\<close>; the mode \<open>test\<close>, the
  reporter in \<open>reporters\<close> and the Vite overrides with their plugin are the same for every
  target and are part of what \<open>createVitest\<close> of the environment stands for. A rejected
  promise of the import or of \<open>createVitest\<close> is a throw at the \<open>await\<close>.
\<close>

definition cli_options :: "env \<Rightarrow> WorkerMeta \<Rightarrow> CliOptions" where
  "cli_options e m =
     \<lparr>opt_config = configFile m, opt_workspace = workspaceFile m, opt_watch = True,
      opt_api = False, opt_root = dirname e (meta_id m), opt_ui = False,
      opt_includeTaskLocation = True\<rparr>"

definition initVitest :: "env \<Rightarrow> WorkerMeta \<Rightarrow> process \<Rightarrow> (js_error + vitest_instance) \<times> process" where
  "initVitest e m p =
     (let p1 = p\<lparr>trace := trace p @ [CreateVitest (process_cwd p) (vitestNodePath m) (cli_options e m)]\<rparr>
      in case createVitest e (process_cwd p) (vitestNodePath m) (cli_options e m) of
           Inl err \<Rightarrow> (Inl err, p1)
         | Inr v \<Rightarrow>
             (let (v', r) = VSCodeReporter_initVitest (setupFilePath e) v (meta_id m) new_VSCodeReporter
              in (Inr \<lparr>i_vitest = v', i_reporter = r, i_meta = m\<rparr>, p1)))"

subsection \<open>The handler \<open>init\<close> (lines 129 to 181)\<close>

definition send :: "process_message \<Rightarrow> process \<Rightarrow> process" where
  "send msg p = p\<lparr>trace := trace p @ [Send msg]\<rparr>"

text \<open>
  \<open>process.chdir\<close>: the call is made; when it throws, the working directory stays.
\<close>

definition process_chdir :: "env \<Rightarrow> string \<Rightarrow> process \<Rightarrow> js_error option \<times> process" where
  "process_chdir e d p =
     (let p1 = p\<lparr>trace := trace p @ [Chdir d]\<rparr>
      in case chdir e d of
           Some err \<Rightarrow> (Some err, p1)
         | None \<Rightarrow> (None, p1\<lparr>process_cwd := d\<rparr>))"

text \<open>
  The loop of lines 140 to 148, over the targets left, with the local arrays \<open>errors\<close> and
  \<open>vitest\<close>. A throw of \<open>process.chdir\<close> is outside the inner \<open>try\<close> and leaves the loop;
  a throw of \<open>initVitest\<close> is caught, and recording it reads \<open>err.stack\<close>: when that read
  throws, the \<open>TypeError\<close> leaves the inner \<open>catch\<close> and the loop.
\<close>

fun init_loop ::
  "env \<Rightarrow> WorkerMeta list \<Rightarrow> jsval list \<Rightarrow> vitest_instance list \<Rightarrow> process
     \<Rightarrow> js_error option \<times> jsval list \<times> vitest_instance list \<times> process" where
  "init_loop e [] errs vs p = (None, errs, vs, p)"
| "init_loop e (m # ms) errs vs p =
     (case process_chdir e (dirname e (meta_id m)) p of
        (Some err, p1) \<Rightarrow> (Some err, errs, vs, p1)
      | (None, p1) \<Rightarrow>
          (case initVitest e m p1 of
             (Inr inst, p2) \<Rightarrow> init_loop e ms errs (vs @ [inst]) p2
           | (Inl err, p2) \<Rightarrow>
               (case err_stack err of
                  Inl thrown \<Rightarrow> (Some thrown, errs, vs, p2)
                | Inr s \<Rightarrow> init_loop e ms (errs @ [JArray [JString (meta_id m), s]]) vs p2)))"

text \<open>\<open>if (data.loader) register(data.loader)\<close>: the empty string is falsy.\<close>

definition register_loader :: "env \<Rightarrow> string option \<Rightarrow> process \<Rightarrow> js_error option \<times> process" where
  "register_loader e l p =
     (case l of
        None \<Rightarrow> (None, p)
      | Some s \<Rightarrow>
          if s = [] then (None, p)
          else (register e s, p\<lparr>trace := trace p @ [Register s]\<rparr>))"

text \<open>
  Modelled from the spec: \<open>createWorkerRPC\<close> of \<open>./rpc\<close> is not among the sources. It
  constructs the single channel, keyed by the identities of the instances it is given.
\<close>

definition createWorkerRPC :: "(string \<times> Vitest) list \<Rightarrow> process \<Rightarrow> rpc_channel \<times> process" where
  "createWorkerRPC entries p =
     (Channel entries, p\<lparr>trace := trace p @ [CreateWorkerRPC entries], channel := Some (Channel entries)\<rparr>)"

text \<open>The body of the outer \<open>try\<close> (lines 135 to 168); \<open>Some err\<close> when \<open>err\<close> escapes it.\<close>

definition init_try :: "env \<Rightarrow> WorkerRunnerOptions \<Rightarrow> process \<Rightarrow> js_error option \<times> process" where
  "init_try e data p =
     (case register_loader e (loader data) p of
        (Some err, p1) \<Rightarrow> (Some err, p1)
      | (None, p1) \<Rightarrow>
          (case init_loop e (meta data) [] [] p1 of
             (Some err, errs, vs, p2) \<Rightarrow> (Some err, p2\<lparr>vitest := vs\<rparr>)
           | (None, errs, vs, p2) \<Rightarrow>
               (case process_chdir e (cwd p2) (p2\<lparr>vitest := vs\<rparr>) of
                  (Some err, p3) \<Rightarrow> (Some err, p3)
                | (None, p3) \<Rightarrow>
                    if vs = [] then (None, send (Message ''error'' errs) p3)
                    else
                      (let (c, p4) = createWorkerRPC (map (\<lambda>v. (meta_id (i_meta v), i_vitest v)) vs) p3;
                           p5 = p4\<lparr>vitest := map (\<lambda>v. v\<lparr>i_reporter := initRpc c (i_reporter v)\<rparr>) vs\<rparr>
                       in (None, send (Message ''ready'' errs) p5)))))"

text \<open>
  The function \<open>error\<close> (lines 176 to 181): it reads \<open>err.stack\<close> before it sends, and
  returns what that read throws. Then the handler. A throw of \<open>error\<close> is a throw in the
  outer \<open>catch\<close>: the promise of the handler is rejected with it. The handler is
  asynchronous and awaits one construction after the other; it has unregistered itself
  before, and no other listener exists until the channel does, so a message that
  arrives in between reaches no listener and the model runs the handler in one piece.
\<close>

definition error :: "js_error \<Rightarrow> process \<Rightarrow> js_error option \<times> process" where
  "error err p =
     (case String_of_stack err of
        Inl thrown \<Rightarrow> (Some thrown, p)
      | Inr s \<Rightarrow> (None, send (Message ''error'' [JString '''', JString s]) p))"

definition init :: "env \<Rightarrow> WorkerRunnerOptions \<Rightarrow> process \<Rightarrow> process" where
  "init e message p =
     (if msg_type message = ''init'' then
        (case init_try e message (p\<lparr>init_listener := False\<rparr>) of
           (Some err, p1) \<Rightarrow>
             (case error err p1 of
                (Some thrown, p2) \<Rightarrow> p2\<lparr>unhandled := Some thrown\<rparr>
              | (None, p2) \<Rightarrow> p2)
         | (None, p1) \<Rightarrow> p1)
      else p)"

text \<open>
  The module's top level: the constant \<open>cwd\<close> is read and \<open>init\<close> is registered. A message
  goes to the listeners registered when it arrives: \<open>init\<close> while it is registered, the
  channel's listener once the channel exists.
\<close>

definition worker_start :: "string \<Rightarrow> process" where
  "worker_start d =
     \<lparr>cwd = d, process_cwd = d, init_listener = True, trace = [], vitest = [], channel = None,
      unhandled = None\<rparr>"

definition on_message :: "env \<Rightarrow> WorkerRunnerOptions \<Rightarrow> process \<Rightarrow> process" where
  "on_message e message p =
     (if init_listener p then init e message p
      else if channel p \<noteq> None then rpc_listener e message p
      else p)"

definition sent :: "process \<Rightarrow> process_message list" where
  "sent p = List.map_filter (\<lambda>c. case c of Send msg \<Rightarrow> Some msg | _ \<Rightarrow> None) (trace p)"

subsection \<open>The reporter's callbacks (lines 18 to 20 and 41 to 78)\<close>

text \<open>
  The callbacks run on the event loop of the process. For one reporter the model keeps the
  reporter itself (\<open>self\<close>), the calls made on the channel so far (\<open>posted\<close>, oldest first)
  and the callbacks handed to \<open>nextTick\<close> that have not run yet (\<open>nextTicks\<close>, oldest
  first). A callback returns the thrown value when it throws: reading a property of an
  undefined \<open>ctx\<close> or \<open>rpc\<close> is a \<open>TypeError\<close>.
\<close>

datatype tick = FinishedTick "File list option" "jsval list option" bool

record event_loop =
  self :: VSCodeReporter
  posted :: "rpc_event list"
  nextTicks :: "tick list"

definition isCollecting :: "VSCodeReporter \<Rightarrow> js_error + bool" where
  "isCollecting r =
     (case ctx r of
        None \<Rightarrow> Inl TypeError
      | Some v \<Rightarrow>
          Inr (case testNamePattern v of
                 None \<Rightarrow> False
               | Some re \<Rightarrow> RegExp_toString re = ''/$a/''))"

definition post :: "rpc_event \<Rightarrow> event_loop \<Rightarrow> event_loop" where
  "post ev s = s\<lparr>posted := posted s @ [ev]\<rparr>"

definition onUserConsoleLog :: "UserConsoleLog \<Rightarrow> event_loop \<Rightarrow> js_error + event_loop" where
  "onUserConsoleLog log s =
     (case rpc (self s) of
        None \<Rightarrow> Inl TypeError
      | Some c \<Rightarrow> Inr (post (onConsoleLog (rid (self s)) log) s))"

text \<open>
  \<open>onTaskUpdate\<close> writes to the error objects of the packs it is given: the function
  returns the packs as they are after the call, and those are the packs it forwards.
\<close>

definition resolve_error :: "env \<Rightarrow> WorkspaceProject \<Rightarrow> TaskError \<Rightarrow> TaskError" where
  "resolve_error e project err =
     (case err of
        ErrorObject x \<Rightarrow>
          ErrorObject (x\<lparr>stacks := Some (parseErrorStacktrace e x
                                            (\<lambda>file. getBrowserSourceMapModuleById e project file))\<rparr>)
      | NotAnObject y \<Rightarrow> NotAnObject y)"

definition resolve_pack :: "env \<Rightarrow> Vitest \<Rightarrow> TaskResultPack \<Rightarrow> TaskResultPack" where
  "resolve_pack e v pack =
     (case pack of (taskId, result) \<Rightarrow>
        (let project = getProjectByTaskId e v taskId
         in (taskId,
             map_option (\<lambda>r. r\<lparr>result_errors := map_option (map (resolve_error e project)) (result_errors r)\<rparr>)
               result)))"

definition onTaskUpdate ::
  "env \<Rightarrow> TaskResultPack list \<Rightarrow> event_loop \<Rightarrow> TaskResultPack list \<times> (js_error + event_loop)" where
  "onTaskUpdate e packs s =
     (case (if packs = [] then Inr packs
            else case ctx (self s) of
                   None \<Rightarrow> Inl TypeError
                 | Some v \<Rightarrow> Inr (map (resolve_pack e v) packs)) of
        Inl err \<Rightarrow> (packs, Inl err)
      | Inr packs' \<Rightarrow>
          (packs',
           case rpc (self s) of
             None \<Rightarrow> Inl TypeError
           | Some c \<Rightarrow> Inr (post (onTaskUpdate_event (rid (self s)) packs') s)))"

text \<open>\<open>onFinished\<close> reads the flag and hands the call to \<open>nextTick\<close>.\<close>

definition onFinished ::
  "File list option \<Rightarrow> jsval list option \<Rightarrow> event_loop \<Rightarrow> js_error + event_loop" where
  "onFinished files errs s =
     (case isCollecting (self s) of
        Inl err \<Rightarrow> Inl err
      | Inr collecting \<Rightarrow> Inr (s\<lparr>nextTicks := nextTicks s @ [FinishedTick files errs collecting]\<rparr>))"

definition onCollected :: "File list option \<Rightarrow> event_loop \<Rightarrow> js_error + event_loop" where
  "onCollected files s =
     (case rpc (self s) of
        None \<Rightarrow> Inl TypeError
      | Some c \<Rightarrow>
          (case isCollecting (self s) of
             Inl err \<Rightarrow> Inl err
           | Inr collecting \<Rightarrow> Inr (post (onCollected_event (rid (self s)) files collecting) s)))"

definition onWatcherStart ::
  "File list option \<Rightarrow> jsval list option \<Rightarrow> event_loop \<Rightarrow> js_error + event_loop" where
  "onWatcherStart files errs s =
     (case rpc (self s) of
        None \<Rightarrow> Inl TypeError
      | Some c \<Rightarrow>
          (case isCollecting (self s) of
             Inl err \<Rightarrow> Inl err
           | Inr collecting \<Rightarrow> Inr (post (onWatcherStart_event (rid (self s)) files errs collecting) s)))"

definition onWatcherRerun ::
  "string list \<Rightarrow> string option \<Rightarrow> event_loop \<Rightarrow> js_error + event_loop" where
  "onWatcherRerun files trigger s =
     (case rpc (self s) of
        None \<Rightarrow> Inl TypeError
      | Some c \<Rightarrow>
          (case isCollecting (self s) of
             Inl err \<Rightarrow> Inl err
           | Inr collecting \<Rightarrow> Inr (post (onWatcherRerun_event (rid (self s)) files trigger collecting) s)))"

text \<open>
  The callback of line 64, when its tick comes: \<open>this.rpc\<close> and \<open>this.id\<close> are read then,
  \<open>files\<close>, \<open>errors\<close> and \<open>collecting\<close> are the values captured by the call of \<open>onFinished\<close>.
\<close>

definition run_tick :: "tick \<Rightarrow> event_loop \<Rightarrow> js_error + event_loop" where
  "run_tick t s =
     (case t of FinishedTick files errs collecting \<Rightarrow>
        (case rpc (self s) of
           None \<Rightarrow> Inl TypeError
         | Some c \<Rightarrow> Inr (post (onFinished_event (rid (self s)) files errs collecting) s)))"

fun run_ticks :: "tick list \<Rightarrow> event_loop \<Rightarrow> js_error + event_loop" where
  "run_ticks [] s = Inr s"
| "run_ticks (t # ts) s =
     (case run_tick t s of Inl err \<Rightarrow> Inl err | Inr s' \<Rightarrow> run_ticks ts s')"

text \<open>
  When the synchronous code has run, the callbacks queued by \<open>nextTick\<close> run in the order
  they were queued. None of them queues another.
\<close>

definition processTicks :: "event_loop \<Rightarrow> js_error + event_loop" where
  "processTicks s = run_ticks (nextTicks s) (s\<lparr>nextTicks := []\<rparr>)"

text \<open>
  What the engine does in one synchronous run, as far as the reporter sees it: it calls
  the reporter, and it assigns \<open>configOverride.testNamePattern\<close>. A throw of a callback
  goes to the engine and ends the run of the model.
\<close>

datatype engine_step =
    Call_onUserConsoleLog UserConsoleLog
  | Call_onTaskUpdate "TaskResultPack list"
  | Call_onFinished "File list option" "jsval list option"
  | Call_onCollected "File list option"
  | Call_onWatcherStart "File list option" "jsval list option"
  | Call_onWatcherRerun "string list" "string option"
  | Set_testNamePattern "RegExp option"

definition set_testNamePattern :: "RegExp option \<Rightarrow> event_loop \<Rightarrow> event_loop" where
  "set_testNamePattern pat s =
     s\<lparr>self := (self s)\<lparr>ctx := map_option (\<lambda>v. v\<lparr>testNamePattern := pat\<rparr>) (ctx (self s))\<rparr>\<rparr>"

fun step :: "env \<Rightarrow> engine_step \<Rightarrow> event_loop \<Rightarrow> js_error + event_loop" where
  "step e (Call_onUserConsoleLog log) s = onUserConsoleLog log s"
| "step e (Call_onTaskUpdate packs) s = snd (onTaskUpdate e packs s)"
| "step e (Call_onFinished files errs) s = onFinished files errs s"
| "step e (Call_onCollected files) s = onCollected files s"
| "step e (Call_onWatcherStart files errs) s = onWatcherStart files errs s"
| "step e (Call_onWatcherRerun files trigger) s = onWatcherRerun files trigger s"
| "step e (Set_testNamePattern pat) s = Inr (set_testNamePattern pat s)"

fun run_sync :: "env \<Rightarrow> engine_step list \<Rightarrow> event_loop \<Rightarrow> js_error + event_loop" where
  "run_sync e [] s = Inr s"
| "run_sync e (st # sts) s =
     (case step e st s of Inl err \<Rightarrow> Inl err | Inr s' \<Rightarrow> run_sync e sts s')"

definition turn :: "env \<Rightarrow> engine_step list \<Rightarrow> event_loop \<Rightarrow> js_error + event_loop" where
  "turn e sts s =
     (case run_sync e sts s of Inl err \<Rightarrow> Inl err | Inr s' \<Rightarrow> processTicks s')"

subsection \<open>Notions the properties are stated with\<close>

text \<open>
  What constructing the engine of a target gives when it is attempted from the target's
  directory: the thrown value or the instance.
\<close>

definition attempt :: "env \<Rightarrow> WorkerMeta \<Rightarrow> js_error + Vitest" where
  "attempt e m = createVitest e (dirname e (meta_id m)) (vitestNodePath m) (cli_options e m)"



definition startup_errors :: "env \<Rightarrow> WorkerMeta list \<Rightarrow> jsval list" where
  "startup_errors e ms =
     List.map_filter
       (\<lambda>m. case attempt e m of
               Inl (Thrown s) \<Rightarrow> Some (JArray [JString (meta_id m), stack_value s])
             | Inl Nullish \<Rightarrow> None
             | Inr v \<Rightarrow> None) ms"

definition constructed :: "env \<Rightarrow> WorkerMeta list \<Rightarrow> vitest_instance list" where
  "constructed e ms =
     List.map_filter
       (\<lambda>m. case attempt e m of
               Inl err \<Rightarrow> None
             | Inr v \<Rightarrow>
                 (let (v', r) = VSCodeReporter_initVitest (setupFilePath e) v (meta_id m) new_VSCodeReporter
                  in Some \<lparr>i_vitest = v', i_reporter = r, i_meta = m\<rparr>)) ms"

definition channel_entries :: "env \<Rightarrow> WorkerMeta list \<Rightarrow> (string \<times> Vitest) list" where
  "channel_entries e ms = map (\<lambda>v. (meta_id (i_meta v), i_vitest v)) (constructed e ms)"

definition ready_instances :: "env \<Rightarrow> WorkerMeta list \<Rightarrow> vitest_instance list" where
  "ready_instances e ms =
     map (\<lambda>v. v\<lparr>i_reporter := initRpc (Channel (channel_entries e ms)) (i_reporter v)\<rparr>)
       (constructed e ms)"

text \<open>The calls the loop makes for one target, and the call for the loader.\<close>

definition target_calls :: "env \<Rightarrow> WorkerMeta \<Rightarrow> call list" where
  "target_calls e m =
     [Chdir (dirname e (meta_id m)),
      CreateVitest (dirname e (meta_id m)) (vitestNodePath m) (cli_options e m)]"

definition loader_calls :: "string option \<Rightarrow> call list" where
  "loader_calls l = (case l of None \<Rightarrow> [] | Some s \<Rightarrow> if s = [] then [] else [Register s])"

definition is_chdir_or_create :: "call \<Rightarrow> bool" where
  "is_chdir_or_create c =
     (case c of Chdir d \<Rightarrow> True | CreateVitest d path opts \<Rightarrow> True | _ \<Rightarrow> False)"


text \<open>
  A target is handled inside the loop when \<open>process.chdir\<close> to its directory succeeds
  (\<open>chdir_succeeds\<close>) and its construction, if it throws, throws a value other than
  \<open>null\<close> and \<open>undefined\<close> (\<open>stack_readable\<close>). No error escapes the outer \<open>try\<close>
  (\<open>startup_calls_succeed\<close>) when the loader, if one is given, is registered, every target
  is handled inside the loop, and \<open>process.chdir\<close> succeeds for \<open>d\<close>, the directory the
  worker was started in.
\<close>

definition chdir_succeeds :: "env \<Rightarrow> WorkerMeta \<Rightarrow> bool" where
  "chdir_succeeds e m = (chdir e (dirname e (meta_id m)) = None)"

definition stack_readable :: "env \<Rightarrow> WorkerMeta \<Rightarrow> bool" where
  "stack_readable e m = (attempt e m \<noteq> Inl Nullish)"

definition handled_in_loop :: "env \<Rightarrow> WorkerMeta \<Rightarrow> bool" where
  "handled_in_loop e m = (chdir_succeeds e m \<and> stack_readable e m)"

definition startup_calls_succeed :: "env \<Rightarrow> WorkerRunnerOptions \<Rightarrow> string \<Rightarrow> bool" where
  "startup_calls_succeed e data d =
     ((case loader data of None \<Rightarrow> True | Some s \<Rightarrow> s = [] \<or> register e s = None)
      \<and> list_all (handled_in_loop e) (meta data)
      \<and> chdir e d = None)"

text \<open>The error objects of a pack, in order, and a pack with every \<open>stacks\<close> field erased.\<close>

definition error_objects :: "TaskResultPack \<Rightarrow> ErrorWithDiff list" where
  "error_objects pack =
     (case snd pack of
        None \<Rightarrow> []
      | Some r \<Rightarrow>
          (case result_errors r of
             None \<Rightarrow> []
           | Some errs \<Rightarrow>
               List.map_filter (\<lambda>err. case err of ErrorObject x \<Rightarrow> Some x | NotAnObject y \<Rightarrow> None) errs))"

definition erase_stacks :: "TaskResultPack \<Rightarrow> TaskResultPack" where
  "erase_stacks pack =
     (fst pack,
      map_option
        (\<lambda>r. r\<lparr>result_errors :=
                 map_option
                   (map (\<lambda>err. case err of
                                  ErrorObject x \<Rightarrow> ErrorObject (x\<lparr>stacks := None\<rparr>)
                                | NotAnObject y \<Rightarrow> NotAnObject y))
                   (result_errors r)\<rparr>)
        (snd pack))"

definition resolved_stacks :: "env \<Rightarrow> Vitest \<Rightarrow> string \<Rightarrow> ErrorWithDiff \<Rightarrow> ParsedStack list" where
  "resolved_stacks e v taskId x =
     parseErrorStacktrace e x (getBrowserSourceMapModuleById e (getProjectByTaskId e v taskId))"

text \<open>
  How often \<open>VSCodeReporter.initVitest\<close> writes to the configuration object at address
  \<open>a\<close>: once if it is the root configuration, and once for every project it is the
  configuration of.
\<close>

definition config_uses :: "Vitest \<Rightarrow> nat \<Rightarrow> nat" where
  "config_uses v a = count_list (config v # map project_config (projects v)) a"

definition setupFiles_of :: "ResolvedConfig \<Rightarrow> string list" where
  "setupFiles_of c = (case setupFiles c of None \<Rightarrow> [] | Some fs \<Rightarrow> fs)"

subsection \<open>A small environment to run the model on\<close>

text \<open>
  Two targets as in the scenario of the specification: \<open>A\<close> has a configuration file and
  its engine is constructed, \<open>B\<close> has none and \<open>createVitest\<close> throws. The promise of
  the construction of a third target, \<open>U\<close>, is rejected with \<open>undefined\<close>. The engine has
  the root configuration at address 0 and two projects, the second of which shares the
  root configuration.
\<close>

definition example_engine :: "RegExp option \<Rightarrow> Vitest" where
  "example_engine pat =
     \<lparr>configs = (\<lambda>a. \<lparr>setupFiles = (if a = 0 then Some [''setup.ts''] else None)\<rparr>),
      config = 0,
      projects = [\<lparr>project_name = ''unit'', project_config = 1\<rparr>,
                  \<lparr>project_name = ''core'', project_config = 0\<rparr>],
      testNamePattern = pat\<rparr>"

definition example_env :: env where
  "example_env =
     \<lparr>register = (\<lambda>l. if l = ''bad-loader'' then Some (Thrown (Some ''Error: loader'')) else None),
      chdir = (\<lambda>d. if d = ''/ws/missing'' then Some (Thrown (Some ''Error: ENOENT'')) else None),
      dirname = (\<lambda>path. ''/ws'' @ path),
      createVitest = (\<lambda>d path opts.
         if opt_config opts = None then Inl (Thrown (Some ''no config''))
         else if opt_config opts = Some ''u.config'' then Inl Nullish
         else Inr (example_engine None)),
      setupFilePath = ''/ext/setupFile.mjs'',
      rpc_listener = (\<lambda>message p. p),
      getProjectByTaskId = (\<lambda>v taskId. \<lparr>project_name = taskId, project_config = config v\<rparr>),
      getBrowserSourceMapModuleById = (\<lambda>project file. Some (project_name project @ '':'' @ file)),
      parseErrorStacktrace = (\<lambda>x getSourceMap.
         [\<lparr>ps_file = (case getSourceMap (err_message x) of None \<Rightarrow> [] | Some sm \<Rightarrow> sm),
           ps_line = 1, ps_column = 1\<rparr>])\<rparr>"

definition target_A :: WorkerMeta where
  "target_A = \<lparr>meta_id = ''/A'', vitestNodePath = ''vitest/node'', configFile = Some ''a.config'',
               workspaceFile = None\<rparr>"

definition target_B :: WorkerMeta where
  "target_B = \<lparr>meta_id = ''/B'', vitestNodePath = ''vitest/node'', configFile = None,
               workspaceFile = None\<rparr>"

definition example_init :: "WorkerMeta list \<Rightarrow> string option \<Rightarrow> WorkerRunnerOptions" where
  "example_init ms l = \<lparr>msg_type = ''init'', meta = ms, loader = l\<rparr>"

definition sentinel :: RegExp where
  "sentinel = \<lparr>source = ''$a'', flags = []\<rparr>"

definition example_reporter :: "RegExp option \<Rightarrow> VSCodeReporter" where
  "example_reporter pat =
     \<lparr>rpc = Some (Channel []), ctx = Some (example_engine pat), rid = Some ''/A''\<rparr>"

definition example_loop :: "RegExp option \<Rightarrow> event_loop" where
  "example_loop pat = \<lparr>self = example_reporter pat, posted = [], nextTicks = []\<rparr>"

definition target_C :: WorkerMeta where
  "target_C = \<lparr>meta_id = ''/C'', vitestNodePath = ''vitest/node'', configFile = None,
               workspaceFile = Some ''c.workspace''\<rparr>"

definition target_U :: WorkerMeta where
  "target_U = \<lparr>meta_id = ''/U'', vitestNodePath = ''vitest/node'',
               configFile = Some ''u.config'', workspaceFile = None\<rparr>"

definition target_X :: WorkerMeta where
  "target_X = \<lparr>meta_id = ''/missing'', vitestNodePath = ''vitest/node'',
               configFile = Some ''x.config'', workspaceFile = None\<rparr>"

text \<open>The event a queued callback posts when it runs for the reporter with identity \<open>i\<close>.\<close>

definition tick_event :: "string option \<Rightarrow> tick \<Rightarrow> rpc_event" where
  "tick_event i t =
     (case t of FinishedTick files errs collecting \<Rightarrow> onFinished_event i files errs collecting)"

text \<open>
  The event loop of the example after \<open>onFinished\<close> has been called under the sentinel
  pattern and the engine has then removed the pattern: the callback is still queued.
\<close>

definition example_pending :: event_loop where
  "example_pending =
     \<lparr>self = example_reporter None, posted = [], nextTicks = [FinishedTick None None True]\<rparr>"

definition example_packs :: "TaskResultPack list" where
  "example_packs =
     [(''t1'', Some \<lparr>result_state = ''fail'',
                     result_errors = Some [ErrorObject \<lparr>err_message = ''boom'', stacks = None\<rparr>,
                                           NotAnObject (JString ''thrown string'')]\<rparr>),
      (''t2'', None),
      (''t3'', Some \<lparr>result_state = ''pass'', result_errors = None\<rparr>)]"

definition example_engine_distinct :: Vitest where
  "example_engine_distinct =
     (example_engine None)\<lparr>projects := [\<lparr>project_name = ''unit'', project_config = 1\<rparr>]\<rparr>"

section \<open>Properties\<close>

subsection \<open>Auxiliary facts\<close>

lemma map_filter_Cons:
  "List.map_filter f (x # xs) =
     (case f x of None \<Rightarrow> List.map_filter f xs | Some y \<Rightarrow> y # List.map_filter f xs)"
  by (simp add: List.map_filter_def split: option.splits)

lemma map_filter_Nil: "List.map_filter f [] = []"
  by (simp add: List.map_filter_def)

lemma map_filter_append:
  "List.map_filter f (xs @ ys) = List.map_filter f xs @ List.map_filter f ys"
  by (simp add: List.map_filter_def)

text \<open>
  One turn of the loop, for a target whose directory can be entered: what the
  construction gives decides how the loop goes on.
\<close>

lemma init_loop_step:
  assumes "chdir_succeeds e m"
  shows "init_loop e (m # ms) errs vs p =
     (let p2 = p\<lparr>process_cwd := dirname e (meta_id m), trace := trace p @ target_calls e m\<rparr>
      in case attempt e m of
           Inr v \<Rightarrow>
             init_loop e ms errs
               (vs @ [\<lparr>i_vitest = fst (VSCodeReporter_initVitest (setupFilePath e) v (meta_id m) new_VSCodeReporter),
                       i_reporter = snd (VSCodeReporter_initVitest (setupFilePath e) v (meta_id m) new_VSCodeReporter),
                       i_meta = m\<rparr>]) p2
         | Inl (Thrown s) \<Rightarrow> init_loop e ms (errs @ [JArray [JString (meta_id m), stack_value s]]) vs p2
         | Inl Nullish \<Rightarrow> (Some TypeError, errs, vs, p2))"
  using assms
  by (simp add: process_chdir_def initVitest_def attempt_def target_calls_def chdir_succeeds_def
      err_stack_def Let_def split: sum.splits prod.splits js_error.splits)

lemma init_loop_chdir_throws:
  "chdir e (dirname e (meta_id m)) = Some err \<Longrightarrow>
   init_loop e (m # ms) errs vs p =
     (Some err, errs, vs, p\<lparr>trace := trace p @ [Chdir (dirname e (meta_id m))]\<rparr>)"
  by (simp add: process_chdir_def)

text \<open>
  The loop, when every target is handled inside it: every target is attempted, a
  failure adds an entry to \<open>errors\<close>, a success an instance to \<open>vitest\<close>.
\<close>

lemma init_loop_all:
  "list_all (handled_in_loop e) ms \<Longrightarrow>
   init_loop e ms errs vs p =
     (None, errs @ startup_errors e ms, vs @ constructed e ms,
      p\<lparr>process_cwd := (if ms = [] then process_cwd p else dirname e (meta_id (last ms))),
        trace := trace p @ concat (map (target_calls e) ms)\<rparr>)"
proof (induction ms arbitrary: errs vs p)
  case Nil
  then show ?case by (simp add: startup_errors_def constructed_def map_filter_Nil)
next
  case (Cons m ms)
  from Cons.prems have h: "handled_in_loop e m" and rest: "list_all (handled_in_loop e) ms"
    by simp_all
  from h have c: "chdir_succeeds e m" and r: "attempt e m \<noteq> Inl Nullish"
    by (simp_all add: handled_in_loop_def stack_readable_def)
  show ?case
    unfolding init_loop_step [OF c] using r
    by (simp add: Cons.IH [OF rest] startup_errors_def constructed_def map_filter_Cons Let_def
        split: sum.splits js_error.splits prod.splits)
qed

lemma register_loader_ok:
  "(case l of None \<Rightarrow> True | Some s \<Rightarrow> s = [] \<or> register e s = None) \<Longrightarrow>
   register_loader e l p = (None, p\<lparr>trace := trace p @ loader_calls l\<rparr>)"
  by (auto simp: register_loader_def loader_calls_def split: option.splits)

text \<open>
  Until the \<open>init\<close> message arrives the process is as it was started: a message of
  another type changes nothing.
\<close>

lemma other_message_ignored:
  "msg_type message \<noteq> ''init'' \<Longrightarrow> on_message e message (worker_start d) = worker_start d"
  by (simp add: on_message_def init_def worker_start_def)

text \<open>The state of the process after \<open>init\<close>, when no error escapes the outer \<open>try\<close>.\<close>

lemma init_ok:
  assumes "msg_type data = ''init''" and "startup_calls_succeed e data d"
  shows "on_message e data (worker_start d) =
     (if constructed e (meta data) = [] then
        \<lparr>cwd = d, process_cwd = d, init_listener = False,
         trace = loader_calls (loader data) @ concat (map (target_calls e) (meta data))
                 @ [Chdir d, Send (Message ''error'' (startup_errors e (meta data)))],
         vitest = [], channel = None, unhandled = None\<rparr>
      else
        \<lparr>cwd = d, process_cwd = d, init_listener = False,
         trace = loader_calls (loader data) @ concat (map (target_calls e) (meta data))
                 @ [Chdir d, CreateWorkerRPC (channel_entries e (meta data)),
                    Send (Message ''ready'' (startup_errors e (meta data)))],
         vitest = ready_instances e (meta data),
         channel = Some (Channel (channel_entries e (meta data))), unhandled = None\<rparr>)"
proof -
  from assms(2) have l: "(case loader data of None \<Rightarrow> True | Some s \<Rightarrow> s = [] \<or> register e s = None)"
    and c: "list_all (handled_in_loop e) (meta data)" and r: "chdir e d = None"
    by (simp_all add: startup_calls_succeed_def)
  show ?thesis
    using assms(1) r
    by (simp add: on_message_def init_def init_try_def worker_start_def register_loader_ok [OF l]
        init_loop_all [OF c] process_chdir_def send_def createWorkerRPC_def ready_instances_def
        channel_entries_def Let_def)
qed

lemma sent_loader_calls:
  "List.map_filter (\<lambda>c. case c of Send msg \<Rightarrow> Some msg | _ \<Rightarrow> None) (loader_calls l) = []"
  by (simp add: loader_calls_def map_filter_Cons map_filter_Nil split: option.splits)

lemma sent_target_calls:
  "List.map_filter (\<lambda>c. case c of Send msg \<Rightarrow> Some msg | _ \<Rightarrow> None)
     (concat (map (target_calls e) ms)) = []"
  by (induction ms) (simp_all add: map_filter_Nil map_filter_Cons target_calls_def)



lemma handled_chdir_succeeds:
  "list_all (handled_in_loop e) ms \<Longrightarrow> list_all (chdir_succeeds e) ms"
  by (induction ms) (simp_all add: handled_in_loop_def)







text \<open>
  What is sent when an error escapes the outer \<open>try\<close>: the \<open>error\<close> message of line 179
  when the error has properties; nothing when it is \<open>null\<close> or \<open>undefined\<close>, and the
  promise of the handler is rejected.
\<close>

lemma top_level_error:
  assumes "msg_type data = ''init''" and "init_listener p"
    and "init_try e data (p\<lparr>init_listener := False\<rparr>) = (Some (Thrown s), p1)"
  shows "on_message e data p =
           p1\<lparr>trace := trace p1 @
                 [Send (Message ''error''
                    [JString [], JString (case s of None \<Rightarrow> ''undefined'' | Some t \<Rightarrow> t)])]\<rparr>"
  using assms by (simp add: on_message_def init_def error_def send_def String_of_stack_def)

lemma top_level_nullish:
  assumes "msg_type data = ''init''" and "init_listener p"
    and "init_try e data (p\<lparr>init_listener := False\<rparr>) = (Some Nullish, p1)"
  shows "on_message e data p = p1\<lparr>unhandled := Some TypeError\<rparr>"
  using assms by (simp add: on_message_def init_def error_def String_of_stack_def)

text \<open>The example environment.\<close>

lemma example_attempt_A: "attempt example_env target_A = Inr (example_engine None)"
  by (simp add: attempt_def example_env_def target_A_def cli_options_def)

lemma example_attempt_B: "attempt example_env target_B = Inl (Thrown (Some ''no config''))"
  by (simp add: attempt_def example_env_def target_B_def cli_options_def)

lemma example_attempt_C: "attempt example_env target_C = Inl (Thrown (Some ''no config''))"
  by (simp add: attempt_def example_env_def target_C_def cli_options_def)

lemma example_attempt_U: "attempt example_env target_U = Inl Nullish"
  by (simp add: attempt_def example_env_def target_U_def cli_options_def)

lemma example_ids:
  "meta_id target_A = ''/A''" "meta_id target_B = ''/B''" "meta_id target_C = ''/C''"
  "meta_id target_U = ''/U''" "meta_id target_X = ''/missing''"
  by (simp_all add: target_A_def target_B_def target_C_def target_U_def target_X_def)

lemma example_dirs:
  "dirname example_env (meta_id target_A) = ''/ws/A''"
  "dirname example_env (meta_id target_B) = ''/ws/B''"
  "dirname example_env (meta_id target_C) = ''/ws/C''"
  "dirname example_env (meta_id target_U) = ''/ws/U''"
  "dirname example_env (meta_id target_X) = ''/ws/missing''"
  by (simp_all add: example_env_def example_ids)


lemma example_chdir:
  "chdir_succeeds example_env target_A" "chdir_succeeds example_env target_B"
  "chdir_succeeds example_env target_C" "chdir_succeeds example_env target_U"
  "chdir example_env ''/home'' = None"
  "chdir example_env ''/ws/missing'' = Some (Thrown (Some ''Error: ENOENT''))"
  by (simp_all add: chdir_succeeds_def example_dirs) (simp_all add: example_env_def)

lemma example_handled:
  "handled_in_loop example_env target_A" "handled_in_loop example_env target_B"
  "handled_in_loop example_env target_C"
  by (simp_all add: handled_in_loop_def stack_readable_def example_chdir example_attempt_A
      example_attempt_B example_attempt_C)

lemma example_meta:
  "meta (example_init ms l) = ms" "msg_type (example_init ms l) = ''init''"
  "loader (example_init ms l) = l"
  by (simp_all add: example_init_def)

lemma example_calls_succeed:
  "startup_calls_succeed example_env (example_init [target_A, target_B] None) ''/home''"
  "startup_calls_succeed example_env (example_init [target_B, target_C] None) ''/home''"
  "startup_calls_succeed example_env (example_init [target_B] None) ''/home''"
  by (simp_all add: startup_calls_succeed_def example_meta example_handled example_chdir)

lemma example_start:
  "init_listener (worker_start d)" "trace (worker_start d) = []" "process_cwd (worker_start d) = d"
  "cwd (worker_start d) = d"
  by (simp_all add: worker_start_def)
text \<open>
  When does an error escape the outer \<open>try\<close>? Exactly when the loader's registration
  throws, a \<open>process.chdir\<close> throws, or a construction throws \<open>null\<close> or \<open>undefined\<close>. So
  \<open>startup_calls_succeed\<close> describes the runs of \<open>init\<close> that end in \<open>ready\<close> or in the
  \<open>error\<close> message of line 152.
\<close>

lemma init_loop_escapes:
  "(fst (init_loop e ms errs vs p) = None) = list_all (handled_in_loop e) ms"
proof (induction ms arbitrary: errs vs p)
  case Nil
  then show ?case by simp
next
  case (Cons m ms)
  show ?case
  proof (cases "chdir e (dirname e (meta_id m))")
    case None
    then have c: "chdir_succeeds e m"
      by (simp add: chdir_succeeds_def)
    show ?thesis
      unfolding init_loop_step [OF c]
      by (simp add: Cons.IH handled_in_loop_def stack_readable_def c Let_def
          split: sum.splits js_error.splits)
  next
    case (Some err)
    then show ?thesis
      by (simp add: init_loop_chdir_throws handled_in_loop_def chdir_succeeds_def del: init_loop.simps)
  qed
qed

lemma cwd_init_loop: "cwd (snd (snd (snd (init_loop e ms errs vs p)))) = cwd p"
proof (induction ms arbitrary: errs vs p)
  case Nil
  then show ?case by simp
next
  case (Cons m ms)
  show ?case
  proof (cases "chdir e (dirname e (meta_id m))")
    case None
    then have c: "chdir_succeeds e m"
      by (simp add: chdir_succeeds_def)
    show ?thesis
      unfolding init_loop_step [OF c]
      by (simp add: Cons.IH Let_def split: sum.splits js_error.splits)
  next
    case (Some err)
    then show ?thesis
      by (simp add: init_loop_chdir_throws del: init_loop.simps)
  qed
qed

lemma init_try_escapes:
  "(fst (init_try e data p) = None) = startup_calls_succeed e data (cwd p)"
proof (cases "register_loader e (loader data) p")
  case (Pair r p1)
  then have c1: "cwd p1 = cwd p"
    by (auto simp: register_loader_def split: option.splits if_splits)
  show ?thesis
  proof (cases r)
    case (Some err)
    with Pair show ?thesis
      by (auto simp: init_try_def startup_calls_succeed_def register_loader_def
          split: option.splits if_splits)
  next
    case None
    with Pair have l: "(case loader data of None \<Rightarrow> True | Some s \<Rightarrow> s = [] \<or> register e s = None)"
      by (auto simp: register_loader_def split: option.splits if_splits)
    obtain x errs vs p2 where lp: "init_loop e (meta data) [] [] p1 = (x, errs, vs, p2)"
      by (metis prod_cases4)
    have x: "(x = None) = list_all (handled_in_loop e) (meta data)"
      using init_loop_escapes [of e "meta data" "[]" "[]" p1] by (simp add: lp)
    have c2: "cwd p2 = cwd p"
      using cwd_init_loop [of e "meta data" "[]" "[]" p1] by (simp add: lp c1)
    show ?thesis
      using Pair None l x c2
      by (cases x; cases "chdir e (cwd p)")
         (auto simp: init_try_def lp startup_calls_succeed_def process_chdir_def createWorkerRPC_def
            Let_def)
  qed
qed

text \<open>The handler on the example, for a payload without a loader whose loop is left early.\<close>

lemma example_escape:
  assumes "init_loop example_env ms [] [] ((worker_start d)\<lparr>init_listener := False\<rparr>)
             = (Some (Thrown s), errs, vs, p2)"
  shows "on_message example_env (example_init ms None) (worker_start d) =
           p2\<lparr>vitest := vs,
              trace := trace p2 @
                [Send (Message ''error''
                   [JString [], JString (case s of None \<Rightarrow> ''undefined'' | Some t \<Rightarrow> t)])]\<rparr>"
proof -
  have "init_try example_env (example_init ms None) ((worker_start d)\<lparr>init_listener := False\<rparr>)
          = (Some (Thrown s), p2\<lparr>vitest := vs\<rparr>)"
    by (simp add: init_try_def register_loader_def example_meta assms del: init_loop.simps)
  from top_level_error [OF example_meta(2) example_start(1) this] show ?thesis
    by simp
qed

subsection \<open>The init handshake\<close>












lemma filter_target_calls:
  "filter is_chdir_or_create (concat (map (target_calls e) ms)) = concat (map (target_calls e) ms)"
  by (induction ms) (simp_all add: target_calls_def is_chdir_or_create_def)

lemma filter_loader_calls: "filter is_chdir_or_create (loader_calls l) = []"
  by (simp add: loader_calls_def is_chdir_or_create_def split: option.splits)

text \<open>
  C4, as stated, fails when an error escapes the outer \<open>try\<close>: the processing ends in an
  \<open>error\<close> message and line 149 is not reached. In the first run the directory of the
  second target is missing and \<open>process.chdir\<close> throws; in the second run every
  \<open>process.chdir\<close> succeeds and the construction of \<open>U\<close> is rejected with \<open>undefined\<close>. Both
  runs start in \<open>/home\<close>, send one \<open>error\<close> message, and end in the directory of a target.
\<close>

theorem escaping_error_skips_restore:
  "process_cwd (worker_start ''/home'') = ''/home''
   \<and> sent (on_message example_env (example_init [target_A, target_X, target_B] None) (worker_start ''/home''))
       = [Message ''error'' [JString [], JString ''Error: ENOENT'']]
   \<and> process_cwd (on_message example_env (example_init [target_A, target_X, target_B] None)
                     (worker_start ''/home'')) = ''/ws/A''
   \<and> list_all (chdir_succeeds example_env) [target_U, target_A]
   \<and> chdir example_env ''/home'' = None
   \<and> sent (on_message example_env (example_init [target_U, target_A] None) (worker_start ''/home''))
       = [Message ''error'' [JString [], JString ''TypeError'']]
   \<and> process_cwd (on_message example_env (example_init [target_U, target_A] None) (worker_start ''/home''))
       = ''/ws/U''"
proof -
  let ?A = "\<lparr>i_vitest = fst (VSCodeReporter_initVitest (setupFilePath example_env) (example_engine None)
                               (meta_id target_A) new_VSCodeReporter),
             i_reporter = snd (VSCodeReporter_initVitest (setupFilePath example_env) (example_engine None)
                                 (meta_id target_A) new_VSCodeReporter),
             i_meta = target_A\<rparr>"
  have x: "init_loop example_env [target_X, target_B] errs vs p
        = (Some (Thrown (Some ''Error: ENOENT'')), errs, vs, p\<lparr>trace := trace p @ [Chdir ''/ws/missing'']\<rparr>)"
    for errs vs p
    using init_loop_chdir_throws [of example_env target_X "Thrown (Some ''Error: ENOENT'')" "[target_B]" errs vs p]
    by (simp add: example_dirs example_chdir del: init_loop.simps)
  have l1: "init_loop example_env [target_A, target_X, target_B] [] []
              ((worker_start ''/home'')\<lparr>init_listener := False\<rparr>)
        = (Some (Thrown (Some ''Error: ENOENT'')), [], [?A],
           (worker_start ''/home'')
             \<lparr>init_listener := False, process_cwd := ''/ws/A'',
              trace := target_calls example_env target_A @ [Chdir ''/ws/missing'']\<rparr>)"
    by (simp add: init_loop_step example_chdir example_attempt_A example_dirs example_start x
        del: init_loop.simps)
  have l2: "init_loop example_env [target_U, target_A] [] [] ((worker_start ''/home'')\<lparr>init_listener := False\<rparr>)
        = (Some (Thrown (Some ''TypeError'')), [], [],
           (worker_start ''/home'')
             \<lparr>init_listener := False, process_cwd := ''/ws/U'',
              trace := target_calls example_env target_U\<rparr>)"
    by (simp add: init_loop_step example_chdir example_attempt_U example_dirs example_start
        TypeError_def del: init_loop.simps)
  have "sent (on_message example_env (example_init [target_A, target_X, target_B] None) (worker_start ''/home''))
       = [Message ''error'' [JString [], JString ''Error: ENOENT'']]"
    unfolding example_escape [OF l1]
    by (simp add: sent_def map_filter_append map_filter_Cons map_filter_Nil target_calls_def
        example_start)
  moreover have "process_cwd (on_message example_env (example_init [target_A, target_X, target_B] None)
                     (worker_start ''/home'')) = ''/ws/A''"
    unfolding example_escape [OF l1] by simp
  moreover have "sent (on_message example_env (example_init [target_U, target_A] None) (worker_start ''/home''))
       = [Message ''error'' [JString [], JString ''TypeError'']]"
    unfolding example_escape [OF l2]
    by (simp add: sent_def map_filter_append map_filter_Cons map_filter_Nil target_calls_def
        example_start)
  moreover have "process_cwd (on_message example_env (example_init [target_U, target_A] None)
                     (worker_start ''/home'')) = ''/ws/U''"
    unfolding example_escape [OF l2] by simp
  ultimately show ?thesis
    by (simp add: example_chdir example_start)
qed

text \<open>
  C4, amended. The worker is started in directory \<open>d\<close>, which is the working directory
  when the \<open>init\<close> message arrives, and no error escapes the outer \<open>try\<close>, so that the
  processing of \<open>init\<close> ends in \<open>ready\<close> or in the \<open>error\<close> message of total failure. Then
  the working directory is \<open>d\<close> again afterwards, for any number of targets; and the calls
  of \<open>process.chdir\<close> and \<open>createVitest\<close> were, in this order: for every target, the change
  to the target's directory and then the construction of its engine in that directory;
  after the last target, once, the change back to \<open>d\<close>.
\<close>

theorem working_directory_restored:
  assumes "msg_type data = ''init''"
    and "startup_calls_succeed e data d"
    and "p' = on_message e data (worker_start d)"
  shows "process_cwd p' = process_cwd (worker_start d)
       \<and> process_cwd (worker_start d) = d
       \<and> filter is_chdir_or_create (trace p') = concat (map (target_calls e) (meta data)) @ [Chdir d]
       \<and> (sent p' = [Message ''ready'' (startup_errors e (meta data))]
          \<or> sent p' = [Message ''error'' (startup_errors e (meta data))])"
proof (cases "constructed e (meta data) = []")
  case True
  then have p': "p' = \<lparr>cwd = d, process_cwd = d, init_listener = False,
         trace = loader_calls (loader data) @ concat (map (target_calls e) (meta data))
                 @ [Chdir d, Send (Message ''error'' (startup_errors e (meta data)))],
         vitest = [], channel = None, unhandled = None\<rparr>"
    using init_ok [OF assms(1,2)] assms(3) by simp
  have "filter is_chdir_or_create (trace p') = concat (map (target_calls e) (meta data)) @ [Chdir d]"
    by (simp add: p' filter_target_calls filter_loader_calls) (simp add: is_chdir_or_create_def)
  moreover have "sent p' = [Message ''error'' (startup_errors e (meta data))]"
    by (simp add: p' sent_def map_filter_append sent_loader_calls sent_target_calls
        map_filter_Cons map_filter_Nil)
  ultimately show ?thesis by (simp add: p' worker_start_def)
next
  case False
  then have p': "p' = \<lparr>cwd = d, process_cwd = d, init_listener = False,
         trace = loader_calls (loader data) @ concat (map (target_calls e) (meta data))
                 @ [Chdir d, CreateWorkerRPC (channel_entries e (meta data)),
                    Send (Message ''ready'' (startup_errors e (meta data)))],
         vitest = ready_instances e (meta data),
         channel = Some (Channel (channel_entries e (meta data))), unhandled = None\<rparr>"
    using init_ok [OF assms(1,2)] assms(3) by simp
  have "filter is_chdir_or_create (trace p') = concat (map (target_calls e) (meta data)) @ [Chdir d]"
    by (simp add: p' filter_target_calls filter_loader_calls) (simp add: is_chdir_or_create_def)
  moreover have "sent p' = [Message ''ready'' (startup_errors e (meta data))]"
    by (simp add: p' sent_def map_filter_append sent_loader_calls sent_target_calls
        map_filter_Cons map_filter_Nil)
  ultimately show ?thesis by (simp add: p' worker_start_def)
qed

text \<open>For the targets \<open>A\<close> and \<open>B\<close>, from \<open>/home\<close>: to \<open>/ws/A\<close>, to \<open>/ws/B\<close>, back to \<open>/home\<close>.\<close>

theorem working_directory_restored_witness:
  "msg_type (example_init [target_A, target_B] None) = ''init''
   \<and> startup_calls_succeed example_env (example_init [target_A, target_B] None) ''/home''
   \<and> process_cwd (on_message example_env (example_init [target_A, target_B] None) (worker_start ''/home''))
       = ''/home''
   \<and> filter is_chdir_or_create
        (trace (on_message example_env (example_init [target_A, target_B] None) (worker_start ''/home'')))
       = [Chdir ''/ws/A'', CreateVitest ''/ws/A'' ''vitest/node'' (cli_options example_env target_A),
          Chdir ''/ws/B'', CreateVitest ''/ws/B'' ''vitest/node'' (cli_options example_env target_B),
          Chdir ''/home'']"
proof -
  have v: "vitestNodePath target_A = ''vitest/node''" "vitestNodePath target_B = ''vitest/node''"
    by (simp_all add: target_A_def target_B_def)
  show ?thesis
    using working_directory_restored [OF example_meta(2) example_calls_succeed(1) refl]
      example_calls_succeed(1)
    by (simp add: example_meta target_calls_def example_dirs v worker_start_def)
qed

subsection \<open>An error that escapes the outer \<open>try\<close>\<close>

text \<open>
  C9. The loader's registration throws an error with the stack \<open>Error: loader\<close>. The
  worker catches it and sends one \<open>error\<close> message, and the handler returns. The error
  list of that message is the array of the two strings \<open>''\<close> and the stack: it has two
  entries, neither of which is a pair of an identity and a stack. When instead the only
  target fails, the \<open>error\<close> message of line 152 carries a list whose one entry is such a
  pair.
\<close>

theorem top_level_error_list_is_flat:
  "sent (on_message example_env (example_init [target_A] (Some ''bad-loader'')) (worker_start ''/home''))
     = [Message ''error'' [JString [], JString ''Error: loader'']]
   \<and> sent (on_message example_env (example_init [target_B] None) (worker_start ''/home''))
     = [Message ''error'' [JArray [JString ''/B'', JString ''no config'']]]"
proof -
  have "init_try example_env (example_init [target_A] (Some ''bad-loader''))
          ((worker_start ''/home'')\<lparr>init_listener := False\<rparr>)
        = (Some (Thrown (Some ''Error: loader'')),
           (worker_start ''/home'')\<lparr>init_listener := False, trace := [Register ''bad-loader'']\<rparr>)"
    by (simp add: init_try_def register_loader_def example_init_def example_env_def worker_start_def)
  from top_level_error [OF example_meta(2) example_start(1) this]
  have "sent (on_message example_env (example_init [target_A] (Some ''bad-loader'')) (worker_start ''/home''))
     = [Message ''error'' [JString [], JString ''Error: loader'']]"
    by (simp add: sent_def worker_start_def map_filter_Cons map_filter_Nil)
  moreover have "sent (on_message example_env (example_init [target_B] None) (worker_start ''/home''))
     = [Message ''error'' [JArray [JString ''/B'', JString ''no config'']]]"
    using init_ok [OF example_meta(2) example_calls_succeed(3)]
    by (simp add: example_meta constructed_def startup_errors_def map_filter_Cons map_filter_Nil
        example_attempt_B sent_def map_filter_append sent_loader_calls target_calls_def
        example_ids stack_value_def)
  ultimately show ?thesis by simp
qed

text \<open>
  When the value that escapes is \<open>null\<close> or \<open>undefined\<close> itself (here the loader's
  registration throws it), the read of \<open>err.stack\<close> in \<open>error\<close> throws: no message is
  sent, and the promise of the handler is rejected with the \<open>TypeError\<close>.
\<close>

lemma nullish_escape_sends_nothing:
  assumes "msg_type data = ''init''" and "loader data = Some l" and "l \<noteq> []"
    and "register e l = Some Nullish"
  shows "sent (on_message e data (worker_start d)) = []
       \<and> unhandled (on_message e data (worker_start d)) = Some TypeError"
proof -
  have "init_try e data ((worker_start d)\<lparr>init_listener := False\<rparr>)
          = (Some Nullish, (worker_start d)\<lparr>init_listener := False, trace := [Register l]\<rparr>)"
    using assms by (simp add: init_try_def register_loader_def worker_start_def)
  from top_level_nullish [OF assms(1) example_start(1) this] show ?thesis
    by (simp add: sent_def worker_start_def map_filter_Cons map_filter_Nil)
qed
subsection \<open>The collecting flag\<close>

lemma sentinel_string:
  "(''/'' @ src @ ''/'' @ fl = ''/$a/'') = (src = ''$a'' \<and> fl = [])"
proof (cases src)
  case Nil
  then show ?thesis by simp
next
  case (Cons c1 s1)
  show ?thesis
  proof (cases s1)
    case Nil
    with Cons show ?thesis by auto
  next
    case (Cons c2 s2)
    with \<open>src = c1 # s1\<close> show ?thesis by (cases s2) auto
  qed
qed

lemma RegExp_toString_sentinel:
  "(RegExp_toString re = ''/$a/'') = (source re = ''$a'' \<and> flags re = [])"
  unfolding RegExp_toString_def by (rule sentinel_string)

text \<open>
  C6. For a reporter whose \<open>ctx\<close> is set, the collecting flag is the truth value of: a
  name pattern is active and its string form is equal to \<open>/$a/\<close>. So the flag is true
  exactly for the pattern with source \<open>$a\<close> and no flags, and false for every other
  pattern, whatever it would match, and when no pattern is active.
\<close>

theorem isCollecting_iff_sentinel:
  assumes "ctx r = Some v"
  shows "isCollecting r = Inr (map_option RegExp_toString (testNamePattern v) = Some ''/$a/'')
       \<and> (isCollecting r = Inr True) =
           (\<exists>re. testNamePattern v = Some re \<and> source re = ''$a'' \<and> flags re = [])
       \<and> (isCollecting r = Inr False) =
           (\<forall>re. testNamePattern v = Some re \<longrightarrow> RegExp_toString re \<noteq> ''/$a/'')"
  using assms by (auto simp: isCollecting_def RegExp_toString_sentinel split: option.splits)

text \<open>
  The sentinel, the sentinel with the flag \<open>i\<close>, and a pattern that has the sentinel as a
  part (none of the three matches any test name).
\<close>

theorem isCollecting_iff_sentinel_witness:
  "ctx (example_reporter (Some sentinel)) = Some (example_engine (Some sentinel))
   \<and> isCollecting (example_reporter (Some sentinel)) = Inr True
   \<and> isCollecting (example_reporter (Some \<lparr>source = ''$a'', flags = ''i''\<rparr>)) = Inr False
   \<and> isCollecting (example_reporter (Some \<lparr>source = ''x$a'', flags = []\<rparr>)) = Inr False
   \<and> isCollecting (example_reporter None) = Inr False"
proof -
  have c: "ctx (example_reporter pat) = Some (example_engine pat)" for pat
    by (simp add: example_reporter_def)
  have t: "testNamePattern (example_engine pat) = pat" for pat
    by (simp add: example_engine_def)
  show ?thesis
    using isCollecting_iff_sentinel [OF c, of "Some sentinel"]
      isCollecting_iff_sentinel [OF c, of "Some \<lparr>source = ''$a'', flags = ''i''\<rparr>"]
      isCollecting_iff_sentinel [OF c, of "Some \<lparr>source = ''x$a'', flags = []\<rparr>"]
      isCollecting_iff_sentinel [OF c, of None]
    by (simp add: c t sentinel_def RegExp_toString_def)
qed

subsection \<open>The deferred \<open>finished\<close> event\<close>

lemma run_ticks_posts:
  "rpc (self s) = Some c \<Longrightarrow>
   run_ticks ts s = Inr (s\<lparr>posted := posted s @ map (tick_event (rid (self s))) ts\<rparr>)"
proof (induction ts arbitrary: s)
  case Nil
  then show ?case by simp
next
  case (Cons t ts)
  have "run_tick t s = Inr (post (tick_event (rid (self s)) t) s)"
    using Cons.prems by (simp add: run_tick_def tick_event_def split: tick.splits)
  moreover have "rpc (self (post (tick_event (rid (self s)) t) s)) = Some c"
    using Cons.prems by (simp add: post_def)
  ultimately show ?case
    using Cons.IH [of "post (tick_event (rid (self s)) t) s"] by (simp add: post_def)
qed

lemma processTicks_posts:
  "rpc (self s) = Some c \<Longrightarrow>
   processTicks s =
     Inr (s\<lparr>posted := posted s @ map (tick_event (rid (self s))) (nextTicks s), nextTicks := []\<rparr>)"
  using run_ticks_posts [of "s\<lparr>nextTicks := []\<rparr>" c "nextTicks s"]
  by (simp add: processTicks_def)

lemma run_sync_patterns:
  "run_sync e (map Set_testNamePattern pats) s = Inr (fold set_testNamePattern pats s)"
  by (induction pats arbitrary: s) simp_all

lemma fold_set_testNamePattern:
  "posted (fold set_testNamePattern pats s) = posted s"
  "nextTicks (fold set_testNamePattern pats s) = nextTicks s"
  "rpc (self (fold set_testNamePattern pats s)) = rpc (self s)"
  "rid (self (fold set_testNamePattern pats s)) = rid (self s)"
  by (induction pats arbitrary: s) (simp_all add: set_testNamePattern_def)

lemma fold_set_testNamePattern_ctx:
  "ctx (self s) = Some v \<Longrightarrow> pats \<noteq> [] \<Longrightarrow>
   ctx (self (fold set_testNamePattern pats s)) = Some (v\<lparr>testNamePattern := last pats\<rparr>)"
proof (induction pats arbitrary: s v)
  case Nil
  then show ?case by simp
next
  case (Cons pat pats)
  have h: "ctx (self (set_testNamePattern pat s)) = Some (v\<lparr>testNamePattern := pat\<rparr>)"
    using Cons.prems(1) by (simp add: set_testNamePattern_def)
  show ?case
  proof (cases "pats = []")
    case True
    with h show ?thesis by simp
  next
    case False
    with Cons.IH [OF h False] show ?thesis by simp
  qed
qed

text \<open>
  C5. On a wired reporter whose flag is \<open>b\<close>, the engine calls \<open>onFinished\<close> and
  immediately \<open>onCollected\<close>, and goes on in the same synchronous run, assigning the
  name pattern any number of times. Then the run and its ticks end without a throw and
  the channel has received the \<open>collected\<close> event first and the \<open>finished\<close> event after it
  (and after the events of callbacks queued earlier), both with the reporter's identity;
  the \<open>finished\<close> event carries \<open>b\<close>, the flag at the call, while the flag at the delivery
  is that of the pattern assigned last.
\<close>

theorem finished_after_collected:
  assumes "ctx (self s) = Some v" and "rpc (self s) = Some c" and "isCollecting (self s) = Inr b"
  shows "\<exists>s'. turn e (Call_onFinished files errs # Call_onCollected files2 # map Set_testNamePattern pats) s
                = Inr s'
           \<and> posted s' = posted s @ [onCollected_event (rid (self s)) files2 b]
                          @ map (tick_event (rid (self s))) (nextTicks s)
                          @ [onFinished_event (rid (self s)) files errs b]
           \<and> (pats \<noteq> [] \<longrightarrow>
                isCollecting (self s') =
                  Inr (case last pats of None \<Rightarrow> False | Some re \<Rightarrow> RegExp_toString re = ''/$a/''))"
proof -
  let ?s1 = "s\<lparr>nextTicks := nextTicks s @ [FinishedTick files errs b]\<rparr>"
  let ?s2 = "post (onCollected_event (rid (self s)) files2 b) ?s1"
  let ?s3 = "fold set_testNamePattern pats ?s2"
  have 1: "onFinished files errs s = Inr ?s1"
    using assms(3) by (simp add: onFinished_def)
  have 2: "onCollected files2 ?s1 = Inr ?s2"
    using assms(2,3) by (simp add: onCollected_def)
  have 3: "run_sync e (Call_onFinished files errs # Call_onCollected files2 # map Set_testNamePattern pats) s
             = Inr ?s3"
    by (simp add: 1 2 run_sync_patterns)
  have r: "rpc (self ?s3) = Some c"
    using assms(2) by (simp add: fold_set_testNamePattern post_def)
  have 4: "processTicks ?s3 =
             Inr (?s3\<lparr>posted := posted ?s3 @ map (tick_event (rid (self ?s3))) (nextTicks ?s3),
                       nextTicks := []\<rparr>)"
    by (rule processTicks_posts [OF r])
  have c2: "ctx (self ?s2) = Some v"
    using assms(1) by (simp add: post_def)
  let ?s4 = "?s3\<lparr>posted := posted ?s3 @ map (tick_event (rid (self ?s3))) (nextTicks ?s3),
                   nextTicks := []\<rparr>"
  have t: "turn e (Call_onFinished files errs # Call_onCollected files2 # map Set_testNamePattern pats) s
             = Inr ?s4"
    unfolding turn_def 3 using 4 by simp
  have p: "posted ?s4 = posted s @ [onCollected_event (rid (self s)) files2 b]
                          @ map (tick_event (rid (self s))) (nextTicks s)
                          @ [onFinished_event (rid (self s)) files errs b]"
    by (simp add: fold_set_testNamePattern post_def tick_event_def)
  have 5: "pats \<noteq> [] \<longrightarrow>
           isCollecting (self ?s4) =
             Inr (case last pats of None \<Rightarrow> False | Some re \<Rightarrow> RegExp_toString re = ''/$a/'')"
    using fold_set_testNamePattern_ctx [OF c2] by (simp add: isCollecting_def)
  from t p 5 show ?thesis by blast
qed

lemma example_loop_facts:
  "ctx (self (example_loop pat)) = Some (example_engine pat)"
  "rpc (self (example_loop pat)) = Some (Channel [])"
  "rid (self (example_loop pat)) = Some ''/A''"
  "posted (example_loop pat) = []"
  "nextTicks (example_loop pat) = []"
  by (simp_all add: example_loop_def example_reporter_def)

lemma example_collecting:
  "isCollecting (self (example_loop (Some sentinel))) = Inr True"
  "isCollecting (self (example_loop None)) = Inr False"
  by (simp_all add: isCollecting_def example_loop_def example_reporter_def example_engine_def
      sentinel_def RegExp_toString_def)

text \<open>
  Under the sentinel, \<open>onFinished\<close>, \<open>onCollected\<close>, and then the engine removes the
  pattern: \<open>collected\<close> comes first, and \<open>finished\<close> says \<open>true\<close> though the flag is
  false when it is delivered.
\<close>

theorem finished_after_collected_witness:
  "ctx (self (example_loop (Some sentinel))) = Some (example_engine (Some sentinel))
   \<and> rpc (self (example_loop (Some sentinel))) = Some (Channel [])
   \<and> isCollecting (self (example_loop (Some sentinel))) = Inr True
   \<and> (\<exists>s'. turn example_env
              [Call_onFinished (Some [File ''a.test.ts'']) None, Call_onCollected (Some [File ''b.test.ts'']),
               Set_testNamePattern None]
              (example_loop (Some sentinel)) = Inr s'
          \<and> posted s' = [onCollected_event (Some ''/A'') (Some [File ''b.test.ts'']) True,
                          onFinished_event (Some ''/A'') (Some [File ''a.test.ts'']) None True]
          \<and> isCollecting (self s') = Inr False)"
  using finished_after_collected [OF example_loop_facts(1,2) example_collecting(1),
      of example_env "Some [File ''a.test.ts'']" None "Some [File ''b.test.ts'']" "[None]"]
  by (simp add: example_loop_facts example_collecting)

subsection \<open>Events when no pattern is active\<close>

text \<open>
  C10, as stated, fails for the \<open>finished\<close> event. \<open>onFinished\<close> is called under the
  sentinel pattern and the engine removes the pattern in the same run. When the queued
  callback runs, no pattern is active and the flag is false, and the \<open>finished\<close> event it
  posts carries \<open>true\<close>.
\<close>

theorem finished_flag_is_of_call_time:
  "run_sync example_env [Call_onFinished None None, Set_testNamePattern None] (example_loop (Some sentinel))
     = Inr example_pending
   \<and> map_option testNamePattern (ctx (self example_pending)) = Some None
   \<and> isCollecting (self example_pending) = Inr False
   \<and> processTicks example_pending
       = Inr (example_pending\<lparr>posted := [onFinished_event (Some ''/A'') None None True], nextTicks := []\<rparr>)"
proof -
  have "run_sync example_env [Call_onFinished None None, Set_testNamePattern None] (example_loop (Some sentinel))
     = Inr example_pending"
    by (simp add: onFinished_def example_collecting set_testNamePattern_def example_pending_def)
       (simp add: example_loop_def example_reporter_def example_engine_def)
  moreover have "map_option testNamePattern (ctx (self example_pending)) = Some None"
    by (simp add: example_pending_def example_reporter_def example_engine_def)
  moreover have "isCollecting (self example_pending) = Inr False"
    by (simp add: isCollecting_def example_pending_def example_reporter_def example_engine_def)
  moreover have "processTicks example_pending
       = Inr (example_pending\<lparr>posted := [onFinished_event (Some ''/A'') None None True], nextTicks := []\<rparr>)"
    by (simp add: processTicks_def run_tick_def post_def example_pending_def example_reporter_def)
  ultimately show ?thesis by simp
qed

text \<open>
  C10, amended. In a state of a wired reporter in which no name pattern is active, the
  collecting flag is false; every \<open>collected\<close>, \<open>watcherStart\<close> and \<open>watcherRerun\<close> event
  posted in that state carries \<open>false\<close>; and the \<open>finished\<close> event of a call of
  \<open>onFinished\<close> made in that state carries \<open>false\<close> when it is delivered, whatever
  pattern the engine assigns in between.
\<close>

theorem no_pattern_not_collecting:
  assumes "ctx (self s) = Some v" and "testNamePattern v = None" and "rpc (self s) = Some c"
  shows "isCollecting (self s) = Inr False
       \<and> onCollected files s = Inr (post (onCollected_event (rid (self s)) files False) s)
       \<and> onWatcherStart files errs s = Inr (post (onWatcherStart_event (rid (self s)) files errs False) s)
       \<and> onWatcherRerun names trigger s
           = Inr (post (onWatcherRerun_event (rid (self s)) names trigger False) s)
       \<and> onFinished files errs s = Inr (s\<lparr>nextTicks := nextTicks s @ [FinishedTick files errs False]\<rparr>)
       \<and> (\<exists>s'. turn e (Call_onFinished files errs # map Set_testNamePattern pats) s = Inr s'
              \<and> posted s' = posted s @ map (tick_event (rid (self s))) (nextTicks s)
                             @ [onFinished_event (rid (self s)) files errs False])"
proof -
  have i: "isCollecting (self s) = Inr False"
    using assms(1,2) by (simp add: isCollecting_def)
  let ?s1 = "s\<lparr>nextTicks := nextTicks s @ [FinishedTick files errs False]\<rparr>"
  let ?s3 = "fold set_testNamePattern pats ?s1"
  let ?s4 = "?s3\<lparr>posted := posted ?s3 @ map (tick_event (rid (self ?s3))) (nextTicks ?s3),
                   nextTicks := []\<rparr>"
  have 1: "onFinished files errs s = Inr ?s1"
    using i by (simp add: onFinished_def)
  have 3: "run_sync e (Call_onFinished files errs # map Set_testNamePattern pats) s = Inr ?s3"
    by (simp add: 1 run_sync_patterns)
  have r: "rpc (self ?s3) = Some c"
    using assms(3) by (simp add: fold_set_testNamePattern)
  have t: "turn e (Call_onFinished files errs # map Set_testNamePattern pats) s = Inr ?s4"
    unfolding turn_def 3 using processTicks_posts [OF r] by simp
  have p: "posted ?s4 = posted s @ map (tick_event (rid (self s))) (nextTicks s)
                             @ [onFinished_event (rid (self s)) files errs False]"
    by (simp add: fold_set_testNamePattern tick_event_def)
  have "onCollected files s = Inr (post (onCollected_event (rid (self s)) files False) s)"
    using i assms(3) by (simp add: onCollected_def)
  moreover have "onWatcherStart files errs s
      = Inr (post (onWatcherStart_event (rid (self s)) files errs False) s)"
    using i assms(3) by (simp add: onWatcherStart_def)
  moreover have "onWatcherRerun names trigger s
      = Inr (post (onWatcherRerun_event (rid (self s)) names trigger False) s)"
    using i assms(3) by (simp add: onWatcherRerun_def)
  ultimately show ?thesis using i 1 t p by blast
qed

text \<open>
  With no pattern, \<open>collected\<close> carries \<open>false\<close>, and so does \<open>finished\<close> though the
  engine sets the sentinel before the delivery.
\<close>

theorem no_pattern_not_collecting_witness:
  "ctx (self (example_loop None)) = Some (example_engine None)
   \<and> testNamePattern (example_engine None) = None
   \<and> rpc (self (example_loop None)) = Some (Channel [])
   \<and> isCollecting (self (example_loop None)) = Inr False
   \<and> map_sum (\<lambda>err. err) posted (onCollected None (example_loop None))
       = Inr [onCollected_event (Some ''/A'') None False]
   \<and> (\<exists>s'. turn example_env [Call_onFinished None None, Set_testNamePattern (Some sentinel)] (example_loop None)
              = Inr s'
          \<and> posted s' = [onFinished_event (Some ''/A'') None None False])"
proof -
  have n: "testNamePattern (example_engine None) = None"
    by (simp add: example_engine_def)
  show ?thesis
    using no_pattern_not_collecting [OF example_loop_facts(1) n example_loop_facts(2),
        of None None "[]" None example_env "[Some sentinel]"]
    by (simp add: example_loop_facts n post_def)
qed

subsection \<open>\<open>VSCodeReporter.initVitest\<close> and the setup file\<close>

lemma fold_add_setupFile:
  "fold (\<lambda>project h. add_setupFile_at path (project_config project) h) ps h a =
     (if count_list (map project_config ps) a = 0 then h a
      else (h a)\<lparr>setupFiles :=
              Some (setupFiles_of (h a) @ replicate (count_list (map project_config ps) a) path)\<rparr>)"
proof (induction ps arbitrary: h)
  case Nil
  then show ?case by simp
next
  case (Cons p ps)
  let ?F = "\<lambda>project h. add_setupFile_at path (project_config project) h"
  let ?h = "add_setupFile_at path (project_config p) h"
  have "fold ?F (p # ps) h a = fold ?F ps ?h a"
    by simp
  also have "\<dots> = (if count_list (map project_config ps) a = 0 then ?h a
      else (?h a)\<lparr>setupFiles :=
              Some (setupFiles_of (?h a) @ replicate (count_list (map project_config ps) a) path)\<rparr>)"
    by (rule Cons.IH)
  also have "\<dots> = (if count_list (map project_config (p # ps)) a = 0 then h a
      else (h a)\<lparr>setupFiles :=
              Some (setupFiles_of (h a) @ replicate (count_list (map project_config (p # ps)) a) path)\<rparr>)"
    by (simp add: add_setupFile_at_def add_setupFile_def setupFiles_of_def)
  finally show ?case .
qed

lemma count_list_pos: "x \<in> set xs \<Longrightarrow> 0 < count_list xs x"
  using count_list_0_iff [of xs x] by simp

lemma count_list_distinct: "distinct xs \<Longrightarrow> x \<in> set xs \<Longrightarrow> count_list xs x = 1"
  by (induction xs) auto

text \<open>
  C7. \<open>initVitest\<close> of the reporter, called with an engine and an identity, returns with
  the reporter's \<open>ctx\<close> being the engine and its \<open>id\<close> the identity (its \<open>rpc\<close> is not
  touched), and with the setup-file path appended to the list of the root configuration
  and to the list of every project's configuration, the entries that were there kept in
  front. A configuration object gets the path once for every use of it, as the root
  configuration or as the configuration of a project; an object that is neither is not
  changed. When the root and the projects have configuration objects of their own, each
  list is the old one followed by the path. Nothing is handed to \<open>nextTick\<close>: the result
  of the call is the state after the writes.
\<close>

theorem initVitest_appends_setupFile:
  assumes "VSCodeReporter_initVitest path v i r = (v', r')"
  shows "ctx r' = Some v' \<and> rid r' = Some i \<and> rpc r' = rpc r
       \<and> config v' = config v \<and> projects v' = projects v \<and> testNamePattern v' = testNamePattern v
       \<and> (\<forall>a. configs v' a =
               (if config_uses v a = 0 then configs v a
                else (configs v a)\<lparr>setupFiles :=
                       Some (setupFiles_of (configs v a) @ replicate (config_uses v a) path)\<rparr>))
       \<and> 0 < config_uses v (config v)
       \<and> (\<forall>project \<in> set (projects v). 0 < config_uses v (project_config project))
       \<and> (distinct (config v # map project_config (projects v)) \<longrightarrow>
            (\<forall>a \<in> set (config v # map project_config (projects v)).
               setupFiles (configs v' a) = Some (setupFiles_of (configs v a) @ [path])))"
proof -
  let ?F = "\<lambda>project h. add_setupFile_at path (project_config project) h"
  let ?h = "add_setupFile_at path (config v) (configs v)"
  have v': "v' = v\<lparr>configs := fold ?F (projects v) ?h\<rparr>"
    and r': "r' = r\<lparr>ctx := Some v', rid := Some i\<rparr>"
    using assms by (auto simp: VSCodeReporter_initVitest_def Let_def)
  have cfg: "configs v' a =
               (if config_uses v a = 0 then configs v a
                else (configs v a)\<lparr>setupFiles :=
                       Some (setupFiles_of (configs v a) @ replicate (config_uses v a) path)\<rparr>)" for a
    unfolding v'
    by (simp add: fold_add_setupFile config_uses_def)
       (simp add: add_setupFile_at_def add_setupFile_def setupFiles_of_def replicate_append_same)
  have root: "0 < config_uses v (config v)"
    by (simp add: config_uses_def)
  have proj: "\<forall>project \<in> set (projects v). 0 < config_uses v (project_config project)"
    by (simp add: config_uses_def count_list_pos del: count_list.simps)
  have once: "distinct (config v # map project_config (projects v)) \<longrightarrow>
            (\<forall>a \<in> set (config v # map project_config (projects v)).
               setupFiles (configs v' a) = Some (setupFiles_of (configs v a) @ [path]))"
  proof (intro impI ballI)
    fix a
    assume d: "distinct (config v # map project_config (projects v))"
      and a: "a \<in> set (config v # map project_config (projects v))"
    then have "config_uses v a = 1"
      unfolding config_uses_def by (rule count_list_distinct)
    then show "setupFiles (configs v' a) = Some (setupFiles_of (configs v a) @ [path])"
      by (simp add: cfg)
  qed
  show ?thesis
    using cfg root proj once by (simp add: r' v')
qed

text \<open>
  The example engine has \<open>setup.ts\<close> in its root configuration, which its second project
  shares: the shared list gets the path twice, the list of the first project once, any
  other object is left alone. With the first project only, each list gets the path once.
\<close>

theorem initVitest_appends_setupFile_witness:
  "rid (snd (VSCodeReporter_initVitest ''/ext/setupFile.mjs'' (example_engine None) ''/A'' new_VSCodeReporter))
     = Some ''/A''
   \<and> ctx (snd (VSCodeReporter_initVitest ''/ext/setupFile.mjs'' (example_engine None) ''/A'' new_VSCodeReporter))
     = Some (fst (VSCodeReporter_initVitest ''/ext/setupFile.mjs'' (example_engine None) ''/A'' new_VSCodeReporter))
   \<and> map (\<lambda>a. setupFiles (configs (fst (VSCodeReporter_initVitest ''/ext/setupFile.mjs'' (example_engine None)
                                          ''/A'' new_VSCodeReporter)) a)) [0, 1, 2]
     = [Some [''setup.ts'', ''/ext/setupFile.mjs'', ''/ext/setupFile.mjs''],
        Some [''/ext/setupFile.mjs''],
        None]
   \<and> distinct (config example_engine_distinct # map project_config (projects example_engine_distinct))
   \<and> map (\<lambda>a. setupFiles (configs (fst (VSCodeReporter_initVitest ''/ext/setupFile.mjs''
                 example_engine_distinct ''/A'' new_VSCodeReporter)) a)) [0, 1, 2]
     = [Some [''setup.ts'', ''/ext/setupFile.mjs''], Some [''/ext/setupFile.mjs''], None]"
proof -
  have u: "map (config_uses (example_engine None)) [0, 1, 2] = [2, 1, 0]"
    "map (config_uses example_engine_distinct) [0, 1, 2] = [1, 1, 0]"
    by (simp_all add: config_uses_def example_engine_def example_engine_distinct_def)
  have c: "map (\<lambda>a. setupFiles_of (configs (example_engine None) a)) [0, 1, 2] = [ [''setup.ts''], [], []]"
    "map (\<lambda>a. setupFiles (configs (example_engine None) a)) [0, 1, 2] = [Some [''setup.ts''], None, None]"
    "configs example_engine_distinct = configs (example_engine None)"
    by (simp_all add: setupFiles_of_def example_engine_def example_engine_distinct_def)
  have d: "distinct (config example_engine_distinct # map project_config (projects example_engine_distinct))"
    by (simp add: example_engine_def example_engine_distinct_def)
  show ?thesis
    using initVitest_appends_setupFile [OF prod.collapse [symmetric],
        of "''/ext/setupFile.mjs''" "example_engine None" "''/A''" new_VSCodeReporter]
      initVitest_appends_setupFile [OF prod.collapse [symmetric],
        of "''/ext/setupFile.mjs''" example_engine_distinct "''/A''" new_VSCodeReporter]
      u c d
    by (simp add: numeral_2_eq_2)
qed

subsection \<open>\<open>onTaskUpdate\<close>\<close>

lemma resolve_pack_fst: "fst (resolve_pack e v pack) = fst pack"
  by (simp add: resolve_pack_def Let_def split: prod.splits)

lemma map_filter_map:
  "List.map_filter f (map g xs) = List.map_filter (\<lambda>x. f (g x)) xs"
  by (induction xs) (simp_all add: map_filter_Nil map_filter_Cons split: option.splits)

lemma map_filter_objects:
  "List.map_filter (\<lambda>err. case resolve_error e project err of ErrorObject x \<Rightarrow> Some x | NotAnObject y \<Rightarrow> None) errs
   = map (\<lambda>x. x\<lparr>stacks := Some (parseErrorStacktrace e x (getBrowserSourceMapModuleById e project))\<rparr>)
       (List.map_filter (\<lambda>err. case err of ErrorObject x \<Rightarrow> Some x | NotAnObject y \<Rightarrow> None) errs)"
  by (induction errs)
    (simp_all add: map_filter_Nil map_filter_Cons resolve_error_def split: TaskError.splits)

lemma resolve_pack_error_objects:
  "error_objects (resolve_pack e v pack)
     = map (\<lambda>x. x\<lparr>stacks := Some (resolved_stacks e v (fst pack) x)\<rparr>) (error_objects pack)"
proof (cases pack)
  case (Pair taskId result)
  show ?thesis
  proof (cases result)
    case None
    with Pair show ?thesis by (simp add: error_objects_def resolve_pack_def)
  next
    case (Some r)
    show ?thesis
    proof (cases "result_errors r")
      case None
      with Pair Some show ?thesis by (simp add: error_objects_def resolve_pack_def)
    next
      case (Some errs)
      with Pair \<open>result = Some r\<close> show ?thesis
        by (simp add: error_objects_def resolve_pack_def map_filter_map map_filter_objects
            resolved_stacks_def)
    qed
  qed
qed

lemma erase_resolve_error:
  "(case resolve_error e project err of
      ErrorObject x \<Rightarrow> ErrorObject (x\<lparr>stacks := None\<rparr>) | NotAnObject y \<Rightarrow> NotAnObject y)
   = (case err of ErrorObject x \<Rightarrow> ErrorObject (x\<lparr>stacks := None\<rparr>) | NotAnObject y \<Rightarrow> NotAnObject y)"
  by (simp add: resolve_error_def split: TaskError.splits)

lemma resolve_pack_erase: "erase_stacks (resolve_pack e v pack) = erase_stacks pack"
proof (cases pack)
  case (Pair taskId result)
  show ?thesis
  proof (cases result)
    case None
    with Pair show ?thesis by (simp add: erase_stacks_def resolve_pack_def)
  next
    case (Some r)
    with Pair show ?thesis
      by (cases "result_errors r")
        (simp_all add: erase_stacks_def resolve_pack_def comp_def erase_resolve_error)
  qed
qed

text \<open>
  C8. \<open>onTaskUpdate\<close> is called on a wired reporter with any batch of packs. After the
  call the batch has the same tasks in the same order; every error object of a pack has
  in \<open>stacks\<close> what \<open>parseErrorStacktrace\<close> returns for it with the source-map accessor of
  the project of the pack's task; nothing else in the batch has changed (with the
  \<open>stacks\<close> fields erased the batch is as before); and exactly one call has been made on
  the channel, \<open>onTaskUpdate\<close> with the reporter's identity and the batch as it is after
  the writes.
\<close>

theorem onTaskUpdate_resolves_then_forwards:
  assumes "ctx (self s) = Some v" and "rpc (self s) = Some c"
    and "onTaskUpdate e packs s = (packs', res)"
  shows "res = Inr (s\<lparr>posted := posted s @ [onTaskUpdate_event (rid (self s)) packs']\<rparr>)
       \<and> map fst packs' = map fst packs
       \<and> map error_objects packs' =
           map (\<lambda>pack. map (\<lambda>x. x\<lparr>stacks := Some (resolved_stacks e v (fst pack) x)\<rparr>) (error_objects pack))
             packs
       \<and> map erase_stacks packs' = map erase_stacks packs"
proof -
  have p: "packs' = map (resolve_pack e v) packs"
    using assms by (cases "packs = []") (auto simp: onTaskUpdate_def)
  have r: "res = Inr (s\<lparr>posted := posted s @ [onTaskUpdate_event (rid (self s)) packs']\<rparr>)"
    using assms by (cases "packs = []") (auto simp: onTaskUpdate_def post_def)
  show ?thesis
    by (simp add: r) (simp add: p comp_def resolve_pack_fst resolve_pack_error_objects resolve_pack_erase)
qed

text \<open>
  Three packs: the first has an error object and a thrown string, the second no result,
  the third a result without errors. The one object gets its trace, from the source map
  of the project of task \<open>t1\<close>.
\<close>

theorem onTaskUpdate_resolves_then_forwards_witness:
  "ctx (self (example_loop None)) = Some (example_engine None)
   \<and> rpc (self (example_loop None)) = Some (Channel [])
   \<and> map error_objects (fst (onTaskUpdate example_env example_packs (example_loop None)))
       = [ [\<lparr>err_message = ''boom'',
            stacks = Some [\<lparr>ps_file = ''t1:boom'', ps_line = 1, ps_column = 1\<rparr>]\<rparr>], [], []]
   \<and> map_sum (\<lambda>err. err) posted (snd (onTaskUpdate example_env example_packs (example_loop None)))
       = Inr [onTaskUpdate_event (Some ''/A'') (fst (onTaskUpdate example_env example_packs (example_loop None)))]"
proof -
  have s: "resolved_stacks example_env (example_engine None) ''t1'' \<lparr>err_message = ''boom'', stacks = None\<rparr>
      = [\<lparr>ps_file = ''t1:boom'', ps_line = 1, ps_column = 1\<rparr>]"
    by (simp add: resolved_stacks_def example_env_def)
  have m: "map (\<lambda>pack. map (\<lambda>x. x\<lparr>stacks := Some (resolved_stacks example_env (example_engine None) (fst pack) x)\<rparr>)
                       (error_objects pack)) example_packs
      = [ [\<lparr>err_message = ''boom'',
            stacks = Some [\<lparr>ps_file = ''t1:boom'', ps_line = 1, ps_column = 1\<rparr>]\<rparr>], [], []]"
    by (simp add: example_packs_def error_objects_def map_filter_Cons map_filter_Nil s)
  show ?thesis
    using onTaskUpdate_resolves_then_forwards [OF example_loop_facts(1,2) prod.collapse [symmetric],
        of example_env example_packs]
    by (simp add: m example_loop_facts)
qed

end
